theory Spec2Isabelle
  imports Complex_Main
begin

section \<open>Exceptions\<close>

text \<open>
  Every handler of \<^verbatim>\<open>scraper.py\<close> that the claims touch is \<^verbatim>\<open>except Exception\<close>.
  A value of \<open>excecao\<close> is an instance of Python's \<^verbatim>\<open>Exception\<close>, named by its class and
  carrying its message. A raise is the left injection of a sum, a return the right one.
  Interrupts (\<^verbatim>\<open>BaseException\<close> outside \<^verbatim>\<open>Exception\<close>) are no handler's business in
  the source and are not values of this type.
\<close>

datatype excecao =
    ValueError string
  | DatabaseError string
  | InterfaceError string
  | PlaywrightError string
  | KeyError string

section \<open>The retry orchestrator: \<^verbatim>\<open>scrape_com_retry\<close>\<close>

text \<open>
  \<^verbatim>\<open>scrape_com_retry\<close> (lines 557-586) calls \<^verbatim>\<open>scrape_mestre_parrillero\<close> once per attempt.
  The crawl is the outside world's: the model takes, for each attempt number, what that
  call does (it raises, or it returns a list of records). The state threaded through
  the loop is the list of delays handed to \<^verbatim>\<open>asyncio.sleep\<close>, oldest first.

  \<^verbatim>\<open>
  for tentativa in range(1, max_tentativas + 1):
      try:
          produtos = await scrape_mestre_parrillero(headless=headless)
          if produtos:
              return produtos
          else:
              if tentativa < max_tentativas:
                  delay = 2 ** tentativa
                  await asyncio.sleep(delay)
      except Exception as e:
          if tentativa < max_tentativas:
              delay = 2 ** tentativa
              await asyncio.sleep(delay)
          else:
              raise
  return []
  \<close>
\<close>

function tentativas :: "(nat \<Rightarrow> excecao + 'p list) \<Rightarrow> nat \<Rightarrow> nat \<Rightarrow> int list
    \<Rightarrow> (excecao + 'p list) \<times> int list" where
  "tentativas crawl max_tentativas tentativa dormidas =
     (if max_tentativas < tentativa then (Inr [], dormidas)
      else case crawl tentativa of
        Inr produtos \<Rightarrow>
          if produtos \<noteq> [] then (Inr produtos, dormidas)
          else if tentativa < max_tentativas
            then tentativas crawl max_tentativas (Suc tentativa) (dormidas @ [2 ^ tentativa])
            else tentativas crawl max_tentativas (Suc tentativa) dormidas
      | Inl e \<Rightarrow>
          if tentativa < max_tentativas
            then tentativas crawl max_tentativas (Suc tentativa) (dormidas @ [2 ^ tentativa])
            else (Inl e, dormidas))"
  by pat_completeness auto
termination
  by (relation "measure (\<lambda>(crawl, m, t, d). Suc m - t)") auto

declare tentativas.simps [simp del]

text \<open>
  \<^verbatim>\<open>range(1, max_tentativas + 1)\<close> is empty when \<^verbatim>\<open>max_tentativas\<close> is zero or negative:
  the Python integer is read through \<open>nat\<close>, which sends every such value to zero
  attempts.
\<close>

definition scrape_com_retry :: "(nat \<Rightarrow> excecao + 'p list) \<Rightarrow> int
    \<Rightarrow> (excecao + 'p list) \<times> int list" where
  "scrape_com_retry crawl max_tentativas = tentativas crawl (nat max_tentativas) 1 []"

text \<open>An attempt succeeds when it completes without exception and returns a record.\<close>

definition bem_sucedida :: "excecao + 'p list \<Rightarrow> bool" where
  "bem_sucedida r = (case r of Inl e \<Rightarrow> False | Inr produtos \<Rightarrow> produtos \<noteq> [])"

text \<open>
  A crawl that follows a script: attempt \<open>t\<close> does what the \<open>t\<close>-th entry says, and returns
  no record once the script is over. It gives the concrete runs below their input.
\<close>

definition roteiro :: "(excecao + 'p list) list \<Rightarrow> nat \<Rightarrow> excecao + 'p list" where
  "roteiro rs t = (if 1 \<le> t \<and> t \<le> length rs then rs ! (t - 1) else Inr [])"

section \<open>The price parser: \<^verbatim>\<open>limpar_preco\<close>\<close>

text \<open>
  A Python \<^verbatim>\<open>str\<close> is modelled by a HOL \<open>string\<close>, each \<open>char\<close> read as the code point
  of the same number (0 to 255). On these code points the classes of Python's \<^verbatim>\<open>re\<close>
  for \<^verbatim>\<open>str\<close> patterns are: \<^verbatim>\<open>\s\<close> (and the characters \<^verbatim>\<open>str.strip()\<close> removes) the code
  points 9 to 13, 28 to 32, 133 and 160; \<^verbatim>\<open>\d\<close> the digits 0 to 9 (48 to 57).
\<close>

definition is_space :: "char \<Rightarrow> bool" where
  "is_space c = (let n = (of_char c :: nat) in
     (9 \<le> n \<and> n \<le> 13) \<or> (28 \<le> n \<and> n \<le> 32) \<or> n = 133 \<or> n = 160)"

definition is_digit :: "char \<Rightarrow> bool" where
  "is_digit c = (let n = (of_char c :: nat) in 48 \<le> n \<and> n \<le> 57)"

text \<open>
  \<^verbatim>\<open>re.sub(r'R\$\s*R\$', 'R$', preco_str)\<close>. \<open>casa_duplicata s\<close> matches the pattern at the
  start of \<open>s\<close> and gives what follows the match. After \<^verbatim>\<open>R$\<close> the greedy \<^verbatim>\<open>\s*\<close> takes
  the whole run of white space: a shorter run is followed by white space, never by
  \<^verbatim>\<open>R\<close>, so backtracking finds nothing more. \<open>sub_duplicatas\<close> scans from the left,
  replaces each match by \<^verbatim>\<open>R$\<close> and goes on after the match, as \<^verbatim>\<open>re.sub\<close> does with
  matches that do not overlap.
\<close>

definition casa_duplicata :: "string \<Rightarrow> string option" where
  "casa_duplicata s =
     (case s of
        c1 # c2 # t \<Rightarrow>
          if c1 = CHR ''R'' \<and> c2 = CHR ''$'' then
            (case dropWhile is_space t of
               d1 # d2 # u \<Rightarrow> if d1 = CHR ''R'' \<and> d2 = CHR ''$'' then Some u else None
             | _ \<Rightarrow> None)
          else None
      | _ \<Rightarrow> None)"

function sub_duplicatas :: "string \<Rightarrow> string" where
  "sub_duplicatas [] = []"
| "sub_duplicatas (c # cs) =
     (case casa_duplicata (c # cs) of
        Some resto \<Rightarrow> ''R$'' @ sub_duplicatas resto
      | None \<Rightarrow> c # sub_duplicatas cs)"
  by pat_completeness auto
termination
proof (relation "measure length")
  show "wf (measure length)" by simp
next
  fix c :: char and cs resto
  assume h: "casa_duplicata (c # cs) = Some resto"
  then obtain c2 t where cs: "cs = c2 # t" and
      r: "\<exists>d1 d2. dropWhile is_space t = d1 # d2 # resto"
    by (auto simp: casa_duplicata_def split: list.splits if_splits)
  have "length (dropWhile is_space t) \<le> length t" by (rule length_dropWhile_le)
  with r cs show "(resto, c # cs) \<in> measure length" by auto
next
  fix c :: char and cs
  show "(cs, c # cs) \<in> measure length" by simp
qed

text \<open>
  \<^verbatim>\<open>re.sub(r'\s+', ' ', preco_limpo)\<close>: every maximal run of white space becomes one
  space. \<^verbatim>\<open>.strip()\<close> then removes the white space at both ends.
\<close>

function sub_espacos :: "string \<Rightarrow> string" where
  "sub_espacos [] = []"
| "sub_espacos (c # cs) =
     (if is_space c then CHR '' '' # sub_espacos (dropWhile is_space cs)
      else c # sub_espacos cs)"
  by pat_completeness auto
termination
  by (relation "measure length") (auto simp: length_dropWhile_le less_Suc_eq_le)

definition strip :: "string \<Rightarrow> string" where
  "strip s = rev (dropWhile is_space (rev (dropWhile is_space s)))"

definition limpar :: "string \<Rightarrow> string" where
  "limpar preco_str = strip (sub_espacos (sub_duplicatas preco_str))"

text \<open>
  \<^verbatim>\<open>re.search(r'([\d.]+,\d{2})', preco_limpo)\<close>. \<open>casa_valor s\<close> matches at the start of
  \<open>s\<close>: the greedy \<^verbatim>\<open>[\d.]+\<close> takes the whole run of digits and dots (a shorter run is
  followed by a digit or a dot, never by the comma), then come a comma and two digits.
  \<open>search_valor\<close> tries the start positions from the left and gives the first match.
\<close>

definition is_numch :: "char \<Rightarrow> bool" where
  "is_numch c = (is_digit c \<or> c = CHR ''.'')"

definition casa_valor :: "string \<Rightarrow> string option" where
  "casa_valor s =
     (let inteiro = takeWhile is_numch s in
      if inteiro = [] then None
      else case dropWhile is_numch s of
        v # d1 # d2 # resto \<Rightarrow>
          if v = CHR '','' \<and> is_digit d1 \<and> is_digit d2 then Some (inteiro @ [v, d1, d2])
          else None
      | _ \<Rightarrow> None)"

fun search_valor :: "string \<Rightarrow> string option" where
  "search_valor [] = None"
| "search_valor (c # cs) =
     (case casa_valor (c # cs) of Some m \<Rightarrow> Some m | None \<Rightarrow> search_valor cs)"

text \<open>\<^verbatim>\<open>s.replace(a, b)\<close> for a single character \<open>a\<close>.\<close>

definition replace_char :: "char \<Rightarrow> string \<Rightarrow> string \<Rightarrow> string" where
  "replace_char a b s = concat (map (\<lambda>c. if c = a then b else [c]) s)"

text \<open>
  \<^verbatim>\<open>float(s)\<close> on a plain decimal literal: digits, or digits, a point and digits, with a
  digit on one side at least. The value is kept exact, as a rational; Python rounds it
  to the nearest double, and that rounding is not modelled. On any other string the model
  raises \<^verbatim>\<open>ValueError\<close>: Python accepts a few more (a sign, an exponent, \<^verbatim>\<open>inf\<close>, \<^verbatim>\<open>nan\<close>,
  underscores, white space around), none of which \<^verbatim>\<open>limpar_preco\<close> can pass: what it
  passes is always digits, a point and two digits, as proved below.
\<close>

definition digit_val :: "char \<Rightarrow> nat" where
  "digit_val c = of_char c - 48"

definition digits_val :: "string \<Rightarrow> nat" where
  "digits_val ds = foldl (\<lambda>a c. 10 * a + digit_val c) 0 ds"

definition py_float :: "string \<Rightarrow> excecao + rat" where
  "py_float s =
     (let ip = takeWhile is_digit s in
      case dropWhile is_digit s of
        [] \<Rightarrow> if ip = [] then Inl (ValueError ''could not convert string to float'')
              else Inr (of_nat (digits_val ip))
      | p # fp \<Rightarrow>
          if p = CHR ''.'' \<and> list_all is_digit fp \<and> (ip \<noteq> [] \<or> fp \<noteq> [])
          then Inr (of_nat (digits_val ip) + of_nat (digits_val fp) / 10 ^ length fp)
          else Inl (ValueError ''could not convert string to float''))"

text \<open>
  The dictionary \<^verbatim>\<open>{'texto': ..., 'valor': ...}\<close> that \<^verbatim>\<open>limpar_preco\<close> returns; \<^verbatim>\<open>None\<close> is
  \<open>None\<close>.

  \<^verbatim>\<open>
  if not preco_str or preco_str == 'Consultar':
      return {'texto': 'Consultar', 'valor': None}
  preco_limpo = re.sub(r'R\$\s*R\$', 'R$', preco_str)
  preco_limpo = re.sub(r'\s+', ' ', preco_limpo).strip()
  match = re.search(r'([\d.]+,\d{2})', preco_limpo)
  if match:
      valor_str = match.group(1)
      valor_float = float(valor_str.replace('.', '').replace(',', '.'))
      return {'texto': preco_limpo, 'valor': valor_float}
  return {'texto': preco_limpo, 'valor': None}
  \<close>
\<close>

record preco_info =
  texto :: string
  valor :: "rat option"

definition literal_valor :: "string \<Rightarrow> string" where
  "literal_valor valor_str = replace_char CHR '','' ''.'' (replace_char CHR ''.'' [] valor_str)"

definition limpar_preco :: "string \<Rightarrow> excecao + preco_info" where
  "limpar_preco preco_str =
     (if preco_str = [] \<or> preco_str = ''Consultar''
      then Inr \<lparr>texto = ''Consultar'', valor = None\<rparr>
      else
        let preco_limpo = limpar preco_str in
        case search_valor preco_limpo of
          Some valor_str \<Rightarrow>
            (case py_float (literal_valor valor_str) of
               Inl e \<Rightarrow> Inl e
             | Inr valor_float \<Rightarrow> Inr \<lparr>texto = preco_limpo, valor = Some valor_float\<rparr>)
        | None \<Rightarrow> Inr \<lparr>texto = preco_limpo, valor = None\<rparr>)"

section \<open>Records and page extraction: \<^verbatim>\<open>extrair_produtos_pagina\<close>\<close>

text \<open>
  A product is a Python dictionary with string keys. Each key of the source is a field; a
  field is \<open>None\<close> while the dictionary has no such key. The in-page script creates the
  keys \<^verbatim>\<open>id\<close>, \<^verbatim>\<open>sku\<close>, \<^verbatim>\<open>nome\<close>, \<^verbatim>\<open>preco\<close>, \<^verbatim>\<open>imagem\<close>, \<^verbatim>\<open>link\<close> and \<^verbatim>\<open>metodo_extracao\<close>;
  \<^verbatim>\<open>extrair_produtos_pagina\<close> adds \<^verbatim>\<open>categoria\<close>, \<^verbatim>\<open>preco_texto\<close>, \<^verbatim>\<open>preco_valor\<close>,
  \<^verbatim>\<open>data_scraping\<close> and \<^verbatim>\<open>status\<close>; the category walker adds \<^verbatim>\<open>fonte\<close>. The key \<^verbatim>\<open>id\<close> is
  the field \<open>id'\<close>. For \<^verbatim>\<open>preco_valor\<close>, a missing key and the value \<^verbatim>\<open>None\<close> are both \<open>None\<close>:
  the source reads the key with \<^verbatim>\<open>.get\<close> only. The value under \<^verbatim>\<open>data_scraping\<close> is a
  string or a \<^verbatim>\<open>datetime\<close>, a naive date and time given by its attributes.
\<close>

record datetime =
  year :: nat
  month :: nat
  day :: nat
  hour :: nat
  minute :: nat
  second :: nat
  microsecond :: nat

datatype data_valor = DataStr string | DataHora datetime

record produto =
  id' :: "string option"
  sku :: "string option"
  nome :: "string option"
  preco :: "string option"
  imagem :: "string option"
  link :: "string option"
  metodo_extracao :: "string option"
  categoria :: "string option"
  preco_texto :: "string option"
  preco_valor :: "rat option"
  data_scraping :: "data_valor option"
  status :: "string option"
  fonte :: "string option"

text \<open>
  One candidate element \<^verbatim>\<open>li .listagem-item\<close> of the DOM snapshot, as the reads of the
  script see it. A field is \<open>None\<close> when \<^verbatim>\<open>querySelector\<close> finds no element. A property that
  is \<^verbatim>\<open>undefined\<close> is the empty string: the script reads each of them through \<^verbatim>\<open>|| ''\<close>
  or a truth test, which treat the two alike. \<open>lanca\<close> says that one of the reads on
  this element throws; every read stands before the \<^verbatim>\<open>push\<close>, inside the \<^verbatim>\<open>try\<close>.
\<close>

record elemento =
  lanca :: bool
  nome_produto :: "string option"
  produto_sobrepor :: "string option"
  a_href :: "string option"
  preco_venda :: "string option"
  preco_parcela :: "string option"
  imagem_principal :: "(string \<times> string) option"
  dataset_id :: string
  class_name :: string
  produto_sku :: "string option"

text \<open>
  \<^verbatim>\<open>String.prototype.trim\<close> removes white space and line terminators at both ends: on
  the code points 0 to 255 these are 9 to 13, 32 and 160.
\<close>

definition js_space :: "char \<Rightarrow> bool" where
  "js_space c = (let n = (of_char c :: nat) in (9 \<le> n \<and> n \<le> 13) \<or> n = 32 \<or> n = 160)"

definition js_trim :: "string \<Rightarrow> string" where
  "js_trim s = rev (dropWhile js_space (rev (dropWhile js_space s)))"

text \<open>
  \<^verbatim>\<open>className.match(/prod-id-(\d+)/)?.[1]\<close>: the digits after the first \<^verbatim>\<open>prod-id-\<close> that a
  digit follows; the empty string stands for no match.
\<close>

definition casa_prod_id :: "string \<Rightarrow> string option" where
  "casa_prod_id s =
     (if take 8 s = ''prod-id-'' \<and> takeWhile is_digit (drop 8 s) \<noteq> []
      then Some (takeWhile is_digit (drop 8 s)) else None)"

fun match_prod_id :: "string \<Rightarrow> string" where
  "match_prod_id [] = []"
| "match_prod_id (c # cs) =
     (case casa_prod_id (c # cs) of Some ds \<Rightarrow> ds | None \<Rightarrow> match_prod_id cs)"

text \<open>
  The reads of the script, lines 151 to 176.
  \<^verbatim>\<open>
  const nome = nomeEl?.textContent?.trim() || '';
  const linkEl = product.querySelector('.produto-sobrepor') || product.querySelector('a[href]');
  const link = linkEl?.href || '';
  let preco = '';
  if (precoEl) { preco = 'R$ ' + precoEl.textContent?.trim(); }
  if (!preco) { if (precoParceladoEl) { preco = precoParceladoEl.textContent?.trim(); } }
  const imagem = imgEl?.src || imgEl?.dataset?.src || '';
  const prodId = product.dataset?.id || product.className?.match(/prod-id-(\d+)/)?.[1] || '';
  const sku = skuEl?.textContent?.trim() || '';
  \<close>
\<close>

definition nome_de :: "elemento \<Rightarrow> string" where
  "nome_de product = (case nome_produto product of None \<Rightarrow> [] | Some t \<Rightarrow> js_trim t)"

definition link_de :: "elemento \<Rightarrow> string" where
  "link_de product =
     (case produto_sobrepor product of
        Some href \<Rightarrow> href
      | None \<Rightarrow> (case a_href product of Some href \<Rightarrow> href | None \<Rightarrow> []))"

definition preco_de :: "elemento \<Rightarrow> string" where
  "preco_de product =
     (case preco_venda product of
        Some t \<Rightarrow> ''R$ '' @ js_trim t
      | None \<Rightarrow> (case preco_parcela product of Some t \<Rightarrow> js_trim t | None \<Rightarrow> []))"

definition imagem_de :: "elemento \<Rightarrow> string" where
  "imagem_de product =
     (case imagem_principal product of
        None \<Rightarrow> []
      | Some (src, data_src) \<Rightarrow> if src \<noteq> [] then src else data_src)"

definition prod_id_de :: "elemento \<Rightarrow> string" where
  "prod_id_de product =
     (if dataset_id product \<noteq> [] then dataset_id product
      else match_prod_id (class_name product))"

definition sku_de :: "elemento \<Rightarrow> string" where
  "sku_de product = (case produto_sku product of None \<Rightarrow> [] | Some t \<Rightarrow> js_trim t)"

text \<open>
  The body of the \<^verbatim>\<open>forEach\<close> callback for one element: \<open>items\<close> before, \<open>items\<close> after.
  A throw is caught by the \<^verbatim>\<open>catch\<close> of the same iteration, which only logs.
  \<^verbatim>\<open>
  try {
      ...
      if (nome && link) {
          items.push({id: prodId || '', sku: sku, nome: nome, preco: preco || 'Consultar',
                      imagem: imagem, link: link, metodo_extracao: '.listagem-item'});
      }
  } catch (err) { console.error(...); }
  \<close>
\<close>

definition processar_elemento :: "elemento \<Rightarrow> produto list \<Rightarrow> produto list" where
  "processar_elemento product items =
     (if lanca product then items
      else if nome_de product \<noteq> [] \<and> link_de product \<noteq> [] then
        items @ [\<lparr>id' = Some (prod_id_de product), sku = Some (sku_de product),
                  nome = Some (nome_de product),
                  preco = Some (if preco_de product \<noteq> [] then preco_de product else ''Consultar''),
                  imagem = Some (imagem_de product), link = Some (link_de product),
                  metodo_extracao = Some ''.listagem-item'',
                  categoria = None, preco_texto = None, preco_valor = None,
                  data_scraping = None, status = None, fonte = None\<rparr>]
      else items)"

fun avaliar_script :: "elemento list \<Rightarrow> produto list \<Rightarrow> produto list" where
  "avaliar_script [] items = items"
| "avaliar_script (product # resto) items =
     avaliar_script resto (processar_elemento product items)"

text \<open>
  The Python loop of lines 199 to 211 over the list the script returned. \<^verbatim>\<open>produto['preco']\<close>
  raises \<^verbatim>\<open>KeyError\<close> on a missing key, and an exception of \<^verbatim>\<open>limpar_preco\<close> would leave
  the function: the loop has no handler. \<open>timestamp\<close> is \<^verbatim>\<open>datetime.now().isoformat()\<close>.
  The status is \<^verbatim>\<open>Dispon\<close>, the code point 237 and \<^verbatim>\<open>vel\<close>.
\<close>

definition disponivel :: string where
  "disponivel = ''Dispon'' @ [CHR 0xED] @ ''vel''"

fun enriquecer :: "string \<Rightarrow> string \<Rightarrow> produto list \<Rightarrow> excecao + produto list" where
  "enriquecer categoria_nome timestamp [] = Inr []"
| "enriquecer categoria_nome timestamp (p # ps) =
     (case preco p of
        None \<Rightarrow> Inl (KeyError ''preco'')
      | Some preco_str \<Rightarrow>
          (case limpar_preco preco_str of
             Inl e \<Rightarrow> Inl e
           | Inr preco_info \<Rightarrow>
               (case enriquecer categoria_nome timestamp ps of
                  Inl e \<Rightarrow> Inl e
                | Inr ps' \<Rightarrow>
                    Inr (p\<lparr>categoria := Some categoria_nome,
                           preco_texto := Some (texto preco_info),
                           preco_valor := valor preco_info,
                           data_scraping := Some (DataStr timestamp),
                           status := Some disponivel\<rparr> # ps'))))"

text \<open>
  \<open>elementos\<close> is the snapshot the script runs on: the candidate elements in document order.
  That \<^verbatim>\<open>page.evaluate\<close> itself raises is a matter of the page, handled by the caller.
\<close>

definition extrair_produtos_pagina :: "elemento list \<Rightarrow> string \<Rightarrow> string
    \<Rightarrow> excecao + produto list" where
  "extrair_produtos_pagina elementos categoria_nome timestamp =
     enriquecer categoria_nome timestamp (avaliar_script elementos [])"

text \<open>
  A candidate for the concrete snapshots below: the text of its \<^verbatim>\<open>.nome-produto\<close>, the
  \<^verbatim>\<open>href\<close> of its first link, and whether reading it throws.
\<close>

definition candidato :: "string option \<Rightarrow> string option \<Rightarrow> bool \<Rightarrow> elemento" where
  "candidato n h t = \<lparr>lanca = t, nome_produto = n, produto_sobrepor = None, a_href = h,
      preco_venda = Some ''R$ 10,00'', preco_parcela = None, imagem_principal = None,
      dataset_id = [], class_name = ''listagem-item prod-id-7'', produto_sku = None\<rparr>"

section \<open>The category walker: \<^verbatim>\<open>scrape_categoria_com_paginacao\<close>\<close>

text \<open>
  A category is the dictionary \<^verbatim>\<open>{'nome': ..., 'url': ..., 'slug': ...}\<close> of \<^verbatim>\<open>CATEGORIAS\<close>.
\<close>

record categoria_spec =
  nome_categoria :: string
  url :: string
  slug :: string

text \<open>
  What the site does during one walk of a category, the browser being the outside world's:
  \<^item> \<open>entrada\<close>: the navigation to the base URL and the settling after it (lines 223 to
    233) raise, or the response has this HTTP status;
  \<^item> \<open>paginacao\<close>: the \<^verbatim>\<open>page.evaluate\<close> of \<^verbatim>\<open>detectar_total_paginas\<close> raises, or gives this
    number;
  \<^item> \<open>visita n\<close>: for page \<open>n\<close>, the navigation (when \<open>n > 1\<close>), the settling or the
    \<^verbatim>\<open>page.evaluate\<close> of the extraction raises, or the script runs on these candidates;
  \<^item> \<open>relogio n\<close>: \<^verbatim>\<open>datetime.now().isoformat()\<close> when page \<open>n\<close> is extracted.
\<close>

record site =
  entrada :: "excecao + int"
  paginacao :: "excecao + int"
  visita :: "nat \<Rightarrow> excecao + elemento list"
  relogio :: "nat \<Rightarrow> string"

text \<open>
  \<^verbatim>\<open>detectar_total_paginas\<close>: \<^verbatim>\<open>max(1, total_paginas)\<close>, and 1 when anything raises (the bare
  \<^verbatim>\<open>except\<close>).
\<close>

definition detectar_total_paginas :: "excecao + int \<Rightarrow> int" where
  "detectar_total_paginas r = (case r of Inl e \<Rightarrow> 1 | Inr total_paginas \<Rightarrow> max 1 total_paginas)"

text \<open>The decimal digits of a number, as the f-string \<^verbatim>\<open>{num_pagina}\<close> writes them.\<close>

function str_nat :: "nat \<Rightarrow> string" where
  "str_nat n = (if n < 10 then [char_of (48 + n)]
                else str_nat (n div 10) @ [char_of (48 + n mod 10)])"
  by pat_completeness auto
termination
  by (relation "measure id") auto

declare str_nat.simps [simp del]

text \<open>
  \<^verbatim>\<open>url_atual = f"{url_base}?pagina={num_pagina}" if num_pagina > 1 else url_base\<close>
\<close>

definition url_atual :: "string \<Rightarrow> nat \<Rightarrow> string" where
  "url_atual url_base num_pagina =
     (if num_pagina > 1 then url_base @ ''?pagina='' @ str_nat num_pagina else url_base)"

text \<open>
  The first part of the body of the inner \<^verbatim>\<open>try\<close> (lines 246 to 259) for page \<open>num_pagina\<close>:
  it raises, or \<^verbatim>\<open>produtos_pagina\<close> is this list.
\<close>

definition produtos_pagina :: "site \<Rightarrow> categoria_spec \<Rightarrow> nat \<Rightarrow> excecao + produto list" where
  "produtos_pagina s cat num_pagina =
     (case visita s num_pagina of
        Inl e \<Rightarrow> Inl e
      | Inr elementos \<Rightarrow>
          extrair_produtos_pagina elementos (nome_categoria cat) (relogio s num_pagina))"

text \<open>
  The loop \<^verbatim>\<open>for num_pagina in range(1, total_paginas + 1)\<close>, from \<open>num_pagina\<close> on.
  \<open>todos_produtos\<close> is the list of the source; \<open>visitadas\<close> records, in order, the pages
  the loop has worked on. An exception inside the \<^verbatim>\<open>try\<close> goes to \<^verbatim>\<open>continue\<close>. The wait
  that ends the \<^verbatim>\<open>try\<close> changes nothing, whether it raises or not: the next page follows.
  \<^verbatim>\<open>
  if produtos_pagina:
      url_atual = ...
      for produto in produtos_pagina:
          produto['fonte'] = url_atual
      todos_produtos.extend(produtos_pagina)
  else:
      if num_pagina > 1:
          break
  \<close>
\<close>

function percorrer :: "site \<Rightarrow> categoria_spec \<Rightarrow> nat \<Rightarrow> nat \<Rightarrow> produto list \<Rightarrow> nat list
    \<Rightarrow> produto list \<times> nat list" where
  "percorrer s cat total_paginas num_pagina todos_produtos visitadas =
     (if total_paginas < num_pagina then (todos_produtos, visitadas)
      else case produtos_pagina s cat num_pagina of
        Inl e \<Rightarrow>
          percorrer s cat total_paginas (Suc num_pagina) todos_produtos
            (visitadas @ [num_pagina])
      | Inr ps \<Rightarrow>
          if ps \<noteq> [] then
            percorrer s cat total_paginas (Suc num_pagina)
              (todos_produtos
                 @ map (\<lambda>produto. produto\<lparr>fonte := Some (url_atual (url cat) num_pagina)\<rparr>) ps)
              (visitadas @ [num_pagina])
          else if num_pagina > 1 then (todos_produtos, visitadas @ [num_pagina])
          else percorrer s cat total_paginas (Suc num_pagina) todos_produtos
                 (visitadas @ [num_pagina]))"
  by pat_completeness auto
termination
  by (relation "measure (\<lambda>(s, c, total, n, todos, vis). Suc total - n)") auto

declare percorrer.simps [simp del]

text \<open>
  The whole function: the records of the category and the pages worked on. A raise in
  the navigation or the settling lands in the outer \<^verbatim>\<open>except\<close>, which returns
  \<^verbatim>\<open>todos_produtos\<close>, still empty there; a status other than 200 returns \<^verbatim>\<open>[]\<close>.
  \<^verbatim>\<open>total_paginas = min(total_paginas, max_paginas)\<close>, and the range is empty below 1.
\<close>

definition scrape_categoria_com_paginacao :: "site \<Rightarrow> categoria_spec \<Rightarrow> int
    \<Rightarrow> produto list \<times> nat list" where
  "scrape_categoria_com_paginacao s cat max_paginas =
     (case entrada s of
        Inl e \<Rightarrow> ([], [])
      | Inr status_http \<Rightarrow>
          if status_http \<noteq> 200 then ([], [])
          else percorrer s cat
                 (nat (min (detectar_total_paginas (paginacao s)) max_paginas)) 1 [] [])"

text \<open>
  What page \<open>k\<close> adds to \<^verbatim>\<open>todos_produtos\<close> when the loop works on it: the records
  extracted from it, each tagged with the URL of the page; nothing when the page raises.
\<close>

definition registros_pagina :: "site \<Rightarrow> categoria_spec \<Rightarrow> nat \<Rightarrow> produto list" where
  "registros_pagina s cat k =
     (case produtos_pagina s cat k of
        Inl e \<Rightarrow> []
      | Inr ps \<Rightarrow> map (\<lambda>produto. produto\<lparr>fonte := Some (url_atual (url cat) k)\<rparr>) ps)"

text \<open>A clock that always shows the same instant, for the concrete walks below.\<close>

definition relogio_fixo :: "nat \<Rightarrow> string" where
  "relogio_fixo n = ''2025-01-27T10:00:00''"

text \<open>
  Two concrete walks of the category \<^verbatim>\<open>Acessorios\<close>. In the first the detector reports four
  pages: page 1 shows two products, page 2 raises, page 3 shows one candidate without a
  name (so no record), page 4 shows a product. In the second the detector reports two
  pages: page 1 shows nothing, page 2 shows a product.
\<close>

definition categoria_exemplo :: categoria_spec where
  "categoria_exemplo =
     \<lparr>nome_categoria = ''Acessorios'', url = ''https://loja/acessorios'', slug = ''acessorios''\<rparr>"

definition site_quatro_paginas :: site where
  "site_quatro_paginas =
     \<lparr>entrada = Inr 200, paginacao = Inr 4,
      visita = roteiro
        [Inr [candidato (Some ''Grelha'') (Some ''https://loja/grelha'') False,
              candidato (Some ''Pegador'') (Some ''https://loja/pegador'') False],
         Inl (PlaywrightError ''Timeout 60000ms exceeded''),
         Inr [candidato None (Some ''https://loja/sem-nome'') False],
         Inr [candidato (Some ''Faca'') (Some ''https://loja/faca'') False]],
      relogio = relogio_fixo\<rparr>"

definition site_pagina_1_vazia :: site where
  "site_pagina_1_vazia =
     \<lparr>entrada = Inr 200, paginacao = Inr 2,
      visita = roteiro
        [Inr [], Inr [candidato (Some ''Faca'') (Some ''https://loja/faca'') False]],
      relogio = relogio_fixo\<rparr>"

section \<open>The persister: \<^verbatim>\<open>salvar_postgres\<close>\<close>

subsection \<open>The table and the connection\<close>

text \<open>
  The eleven values of the tuple handed to \<^verbatim>\<open>cursor.execute\<close>, named after the columns
  they go to, and a row of the table \<^verbatim>\<open>produtos\<close> of \<^verbatim>\<open>criar_tabela_produtos\<close>: these
  columns and the two time stamps the database sets. The surrogate key \<^verbatim>\<open>id SERIAL\<close> is
  left out: no statement of the program reads or writes it. \<^verbatim>\<open>NULL\<close> is \<open>None\<close>.
\<close>

record parametros =
  c_produto_id :: string
  c_sku :: string
  c_nome :: string
  c_preco_texto :: string
  c_preco_valor :: "rat option"
  c_imagem :: string
  c_link :: string
  c_categoria :: string
  c_status :: string
  c_fonte :: string
  c_data_scraping :: "datetime option"

record linha = parametros +
  criado_em :: datetime
  atualizado_em :: datetime

text \<open>
  A psycopg2 connection with the database behind it, as far as this program can tell:
  \<^item> \<open>aberta\<close>: the connection is open (\<^verbatim>\<open>conn.closed == 0\<close>); on a closed one
    \<^verbatim>\<open>conn.cursor()\<close> and \<^verbatim>\<open>conn.commit()\<close> raise \<^verbatim>\<open>InterfaceError\<close>;
  \<^item> \<open>confirmadas\<close>: the rows of \<^verbatim>\<open>produtos\<close> that are committed;
  \<^item> \<open>pendentes\<close>: the rows as the open transaction sees them;
  \<^item> \<open>abortada\<close>: a statement of the open transaction has failed. PostgreSQL then refuses
    every further statement of that transaction (\<^verbatim>\<open>current transaction is aborted, commands
    ignored until end of transaction block\<close>), and the \<^verbatim>\<open>COMMIT\<close> that ends it rolls it back.
  psycopg2 opens a transaction with the first statement and keeps it until \<^verbatim>\<open>commit\<close> or
  \<^verbatim>\<open>rollback\<close>; the program never calls \<^verbatim>\<open>rollback\<close> and sets no savepoint.
\<close>

record conexao =
  aberta :: bool
  confirmadas :: "linha list"
  pendentes :: "linha list"
  abortada :: bool

definition commit :: "conexao \<Rightarrow> excecao + conexao" where
  "commit con =
     (if \<not> aberta con then Inl (InterfaceError ''connection already closed'')
      else if abortada con then Inr (con\<lparr>pendentes := confirmadas con, abortada := False\<rparr>)
      else Inr (con\<lparr>confirmadas := pendentes con\<rparr>))"

definition close :: "conexao \<Rightarrow> conexao" where
  "close con = con\<lparr>aberta := False, pendentes := confirmadas con, abortada := False\<rparr>"

text \<open>
  \<^verbatim>\<open>criar_tabela_produtos\<close> catches every exception of its body and its caller ignores what
  it returns, so only its effect on the connection counts. \<^verbatim>\<open>CREATE TABLE IF NOT EXISTS\<close>
  leaves an existing table as it is, and a table that did not exist is the empty list of
  rows. On an open connection with a live transaction the statement runs and the
  \<^verbatim>\<open>commit\<close> after it commits what the transaction held. On a closed connection, or in
  an aborted transaction, the body raises before its \<^verbatim>\<open>commit\<close> and nothing changes.
\<close>

definition criar_tabela_produtos :: "conexao \<Rightarrow> conexao" where
  "criar_tabela_produtos con =
     (if \<not> aberta con \<or> abortada con then con
      else con\<lparr>confirmadas := pendentes con\<rparr>)"

subsection \<open>One record\<close>

text \<open>
  \<^verbatim>\<open>produto.get(key, default)\<close>, and the conversion of lines 495 to 497.
  \<^verbatim>\<open>datetime.fromisoformat\<close> is the standard library's and depends on its version: the
  model takes it as the parameter \<open>fromisoformat\<close>, a function that returns a
  \<^verbatim>\<open>datetime\<close> or raises.
  \<^verbatim>\<open>
  data_scraping = produto.get('data_scraping')
  if isinstance(data_scraping, str):
      data_scraping = datetime.fromisoformat(data_scraping.replace('Z', '+00:00'))
  \<close>
\<close>

definition get :: "'a option \<Rightarrow> 'a \<Rightarrow> 'a" where
  "get v padrao = (case v of None \<Rightarrow> padrao | Some x \<Rightarrow> x)"

definition converter_data :: "(string \<Rightarrow> excecao + datetime) \<Rightarrow> data_valor option
    \<Rightarrow> excecao + datetime option" where
  "converter_data fromisoformat v =
     (case v of
        None \<Rightarrow> Inr None
      | Some (DataHora d) \<Rightarrow> Inr (Some d)
      | Some (DataStr s) \<Rightarrow>
          (case fromisoformat (replace_char CHR ''Z'' ''+00:00'' s) of
             Inl e \<Rightarrow> Inl e
           | Inr d \<Rightarrow> Inr (Some d)))"

definition parametros_de :: "produto \<Rightarrow> datetime option \<Rightarrow> parametros" where
  "parametros_de p ds =
     \<lparr>c_produto_id = get (id' p) [], c_sku = get (sku p) [], c_nome = get (nome p) [],
      c_preco_texto = get (preco_texto p) [], c_preco_valor = preco_valor p,
      c_imagem = get (imagem p) [], c_link = get (link p) [],
      c_categoria = get (categoria p) [], c_status = get (status p) disponivel,
      c_fonte = get (fonte p) [], c_data_scraping = ds\<rparr>"

text \<open>
  psycopg2 refuses to adapt a string that holds the character 0
  (\<^verbatim>\<open>ValueError: A string literal cannot contain NUL (0x00) characters\<close>): the statement is
  never sent.
\<close>

definition tem_nul :: "parametros \<Rightarrow> bool" where
  "tem_nul v =
     (CHR 0x00 \<in> set (c_produto_id v @ c_sku v @ c_nome v @ c_preco_texto v
        @ c_imagem v @ c_link v @ c_categoria v @ c_status v @ c_fonte v))"

text \<open>
  The column types of \<^verbatim>\<open>CREATE TABLE produtos\<close>. A string longer than the \<open>n\<close> of
  \<^verbatim>\<open>VARCHAR(n)\<close> is an error, unless all it has beyond \<open>n\<close> characters is spaces, which
  are cut off. A number stored in \<^verbatim>\<open>DECIMAL(10, 2)\<close> is rounded to two decimals, half away
  from zero, and is an error when it then needs more than eight digits before the point.
\<close>

definition varchar :: "nat \<Rightarrow> string \<Rightarrow> excecao + string" where
  "varchar n s =
     (if length s \<le> n then Inr s
      else if list_all (\<lambda>c. c = CHR '' '') (drop n s) then Inr (take n s)
      else Inl (DatabaseError ''value too long for type character varying''))"

definition arredondar_2 :: "rat \<Rightarrow> rat" where
  "arredondar_2 x =
     (if 0 \<le> x then of_int \<lfloor>x * 100 + 1 / 2\<rfloor> / 100
      else - (of_int \<lfloor>- x * 100 + 1 / 2\<rfloor> / 100))"

definition decimal_10_2 :: "rat option \<Rightarrow> excecao + rat option" where
  "decimal_10_2 v =
     (case v of
        None \<Rightarrow> Inr None
      | Some x \<Rightarrow>
          if \<bar>arredondar_2 x\<bar> < 100000000 then Inr (Some (arredondar_2 x))
          else Inl (DatabaseError ''numeric field overflow''))"

definition entao :: "excecao + 'a \<Rightarrow> ('a \<Rightarrow> excecao + 'b) \<Rightarrow> excecao + 'b" where
  "entao r f = (case r of Inl e \<Rightarrow> Inl e | Inr x \<Rightarrow> f x)"

definition coagir :: "parametros \<Rightarrow> excecao + parametros" where
  "coagir v =
     entao (varchar 100 (c_produto_id v)) (\<lambda>v_produto_id.
     entao (varchar 100 (c_sku v)) (\<lambda>v_sku.
     entao (varchar 500 (c_nome v)) (\<lambda>v_nome.
     entao (varchar 50 (c_preco_texto v)) (\<lambda>v_preco_texto.
     entao (decimal_10_2 (c_preco_valor v)) (\<lambda>v_preco_valor.
     entao (varchar 200 (c_categoria v)) (\<lambda>v_categoria.
     entao (varchar 50 (c_status v)) (\<lambda>v_status.
       Inr (v\<lparr>c_produto_id := v_produto_id, c_sku := v_sku, c_nome := v_nome,
               c_preco_texto := v_preco_texto, c_preco_valor := v_preco_valor,
               c_categoria := v_categoria, c_status := v_status\<rparr>))))))))"

text \<open>
  The statement \<^verbatim>\<open>upsert_sql\<close> on the rows of the table. \<open>agora\<close> is \<^verbatim>\<open>CURRENT_TIMESTAMP\<close>,
  the start of the transaction. With no row of the same \<^verbatim>\<open>link\<close> the values become a new
  row, both time stamps at their default. Otherwise \<^verbatim>\<open>ON CONFLICT (link) DO UPDATE SET\<close>
  assigns the ten listed columns and \<^verbatim>\<open>atualizado_em\<close> of the row in conflict; \<^verbatim>\<open>link\<close> and
  \<^verbatim>\<open>criado_em\<close> are not in the list. The boolean is \<^verbatim>\<open>RETURNING (xmax = 0) AS inserted\<close>:
  true for a row that was inserted, false for one that was updated.
\<close>

definition linha_nova :: "datetime \<Rightarrow> parametros \<Rightarrow> linha" where
  "linha_nova agora v =
     \<lparr>c_produto_id = c_produto_id v, c_sku = c_sku v, c_nome = c_nome v,
      c_preco_texto = c_preco_texto v, c_preco_valor = c_preco_valor v,
      c_imagem = c_imagem v, c_link = c_link v, c_categoria = c_categoria v,
      c_status = c_status v, c_fonte = c_fonte v, c_data_scraping = c_data_scraping v,
      criado_em = agora, atualizado_em = agora\<rparr>"

definition do_update :: "datetime \<Rightarrow> parametros \<Rightarrow> linha \<Rightarrow> linha" where
  "do_update agora excluded r =
     r\<lparr>c_produto_id := c_produto_id excluded, c_sku := c_sku excluded,
       c_nome := c_nome excluded, c_preco_texto := c_preco_texto excluded,
       c_preco_valor := c_preco_valor excluded, c_imagem := c_imagem excluded,
       c_categoria := c_categoria excluded, c_status := c_status excluded,
       c_fonte := c_fonte excluded, c_data_scraping := c_data_scraping excluded,
       atualizado_em := agora\<rparr>"

definition upsert :: "datetime \<Rightarrow> parametros \<Rightarrow> linha list \<Rightarrow> linha list \<times> bool" where
  "upsert agora v linhas =
     (if c_link v \<in> set (map c_link linhas)
      then (map (\<lambda>r. if c_link r = c_link v then do_update agora v r else r) linhas, False)
      else (linhas @ [linha_nova agora v], True))"

text \<open>
  \<^verbatim>\<open>cursor.execute(upsert_sql, (...))\<close> followed by \<^verbatim>\<open>cursor.fetchone()\<close>: an exception, or the
  value of \<^verbatim>\<open>inserted\<close>, and the connection afterwards. A statement that the server
  rejects leaves the transaction aborted.
\<close>

definition cursor_execute :: "datetime \<Rightarrow> parametros \<Rightarrow> conexao \<Rightarrow> (excecao + bool) \<times> conexao" where
  "cursor_execute agora v con =
     (if tem_nul v
        then (Inl (ValueError ''A string literal cannot contain NUL (0x00) characters''), con)
      else if \<not> aberta con then (Inl (InterfaceError ''connection already closed''), con)
      else if abortada con
        then (Inl (DatabaseError ''current transaction is aborted''), con)
      else case coagir v of
        Inl e \<Rightarrow> (Inl e, con\<lparr>abortada := True\<rparr>)
      | Inr v' \<Rightarrow>
          (Inr (snd (upsert agora v' (pendentes con))),
           con\<lparr>pendentes := fst (upsert agora v' (pendentes con))\<rparr>))"

text \<open>
  What one record brings to the table when nothing fails on its way: the time stamp
  converted, the tuple built and adapted, the values coerced to the column types.
  Otherwise the exception that the record meets first.
\<close>

definition valores :: "(string \<Rightarrow> excecao + datetime) \<Rightarrow> produto \<Rightarrow> excecao + parametros" where
  "valores fromisoformat p =
     (case converter_data fromisoformat (data_scraping p) of
        Inl e \<Rightarrow> Inl e
      | Inr ds \<Rightarrow>
          if tem_nul (parametros_de p ds)
          then Inl (ValueError ''A string literal cannot contain NUL (0x00) characters'')
          else coagir (parametros_de p ds))"

text \<open>The body of the inner \<^verbatim>\<open>try\<close> for one record, lines 494 to 517.\<close>

definition salvar_produto :: "(string \<Rightarrow> excecao + datetime) \<Rightarrow> datetime \<Rightarrow> produto \<Rightarrow> conexao
    \<Rightarrow> (excecao + bool) \<times> conexao" where
  "salvar_produto fromisoformat agora p con =
     (case converter_data fromisoformat (data_scraping p) of
        Inl e \<Rightarrow> (Inl e, con)
      | Inr ds \<Rightarrow> cursor_execute agora (parametros_de p ds) con)"

subsection \<open>The batch\<close>

text \<open>The dictionary of counts that \<^verbatim>\<open>salvar_postgres\<close> returns.\<close>

record estatisticas =
  inseridos :: nat
  atualizados :: nat
  erros :: nat

text \<open>
  The loop \<^verbatim>\<open>for produto in produtos\<close>, with the three counters and the connection as its
  state.
  \<^verbatim>\<open>
  try:
      ...
      result = cursor.fetchone()
      if result and result[0]:
          inseridos += 1
      else:
          atualizados += 1
  except Exception as e:
      erros += 1
      continue
  \<close>
\<close>

fun salvar_todos :: "(string \<Rightarrow> excecao + datetime) \<Rightarrow> datetime \<Rightarrow> produto list
    \<Rightarrow> estatisticas \<Rightarrow> conexao \<Rightarrow> estatisticas \<times> conexao" where
  "salvar_todos fromisoformat agora [] st con = (st, con)"
| "salvar_todos fromisoformat agora (p # ps) st con =
     (case salvar_produto fromisoformat agora p con of
        (Inr inserted, con') \<Rightarrow>
          salvar_todos fromisoformat agora ps
            (if inserted then st\<lparr>inseridos := inseridos st + 1\<rparr>
             else st\<lparr>atualizados := atualizados st + 1\<rparr>) con'
      | (Inl e, con') \<Rightarrow>
          salvar_todos fromisoformat agora ps (st\<lparr>erros := erros st + 1\<rparr>) con')"

text \<open>
  \<^verbatim>\<open>salvar_postgres(produtos, conn)\<close>. \<open>conn\<close> is the argument (\<open>None\<close> for Python's
  \<^verbatim>\<open>None\<close>); \<open>nova\<close> is what \<^verbatim>\<open>criar_conexao_postgres()\<close> returns if it is called
  (it returns \<^verbatim>\<open>None\<close> when psycopg2 is missing or the connection fails). The result is
  the dictionary returned and the connection used, as the call leaves it (\<open>None\<close> when
  no connection was there). Inside the outer \<^verbatim>\<open>try\<close>, \<^verbatim>\<open>conn.cursor()\<close> raises on a closed
  connection, which leads to the outer \<^verbatim>\<open>except\<close>; on an open one neither it nor the
  final \<^verbatim>\<open>commit\<close> raises. The \<^verbatim>\<open>finally\<close> closes the connection that the function
  opened itself.
\<close>

definition salvar_postgres :: "(string \<Rightarrow> excecao + datetime) \<Rightarrow> datetime \<Rightarrow> produto list
    \<Rightarrow> conexao option \<Rightarrow> conexao option \<Rightarrow> estatisticas \<times> conexao option" where
  "salvar_postgres fromisoformat agora produtos conn nova =
     (if produtos = [] then (\<lparr>inseridos = 0, atualizados = 0, erros = 0\<rparr>, conn)
      else case (case conn of None \<Rightarrow> nova | Some con \<Rightarrow> Some con) of
        None \<Rightarrow> (\<lparr>inseridos = 0, atualizados = 0, erros = length produtos\<rparr>, None)
      | Some con \<Rightarrow>
          let fechar_conexao = (conn = None);
              con1 = criar_tabela_produtos con;
              (st, con2) =
                (if \<not> aberta con1
                 then (\<lparr>inseridos = 0, atualizados = 0, erros = length produtos\<rparr>, con1)
                 else case salvar_todos fromisoformat agora produtos
                             \<lparr>inseridos = 0, atualizados = 0, erros = 0\<rparr> con1 of
                   (st, con') \<Rightarrow>
                     (case commit con' of
                        Inl e \<Rightarrow>
                          (\<lparr>inseridos = 0, atualizados = 0, erros = length produtos\<rparr>, con')
                      | Inr con'' \<Rightarrow> (st, con'')))
          in (st, Some (if fechar_conexao then close con2 else con2)))"

subsection \<open>Inputs for the concrete batches\<close>

text \<open>
  A stand-in for \<^verbatim>\<open>datetime.fromisoformat\<close> on the strings of the examples: it reads
  \<^verbatim>\<open>YYYY-MM-DDTHH:MM:SS\<close> with fields in range and raises \<^verbatim>\<open>ValueError\<close> on every other
  string. No theorem about \<open>salvar_postgres\<close> depends on it: they hold for every
  \<open>fromisoformat\<close>.
\<close>

definition fromisoformat_exemplo :: "string \<Rightarrow> excecao + datetime" where
  "fromisoformat_exemplo s =
     (if length s = 19 \<and> s ! 4 = CHR ''-'' \<and> s ! 7 = CHR ''-'' \<and> s ! 10 = CHR ''T''
         \<and> s ! 13 = CHR '':'' \<and> s ! 16 = CHR '':''
         \<and> list_all is_digit (take 4 s @ take 2 (drop 5 s) @ take 2 (drop 8 s)
              @ take 2 (drop 11 s) @ take 2 (drop 14 s) @ take 2 (drop 17 s))
         \<and> 1 \<le> digits_val (take 4 s)
         \<and> 1 \<le> digits_val (take 2 (drop 5 s)) \<and> digits_val (take 2 (drop 5 s)) \<le> 12
         \<and> 1 \<le> digits_val (take 2 (drop 8 s)) \<and> digits_val (take 2 (drop 8 s)) \<le> 31
         \<and> digits_val (take 2 (drop 11 s)) < 24
         \<and> digits_val (take 2 (drop 14 s)) < 60
         \<and> digits_val (take 2 (drop 17 s)) < 60
      then Inr \<lparr>year = digits_val (take 4 s), month = digits_val (take 2 (drop 5 s)),
                day = digits_val (take 2 (drop 8 s)), hour = digits_val (take 2 (drop 11 s)),
                minute = digits_val (take 2 (drop 14 s)),
                second = digits_val (take 2 (drop 17 s)), microsecond = 0\<rparr>
      else Inl (ValueError ''Invalid isoformat string''))"

text \<open>
  A record as the crawl delivers it, with the given name, link and time stamp, and two
  instants for \<^verbatim>\<open>CURRENT_TIMESTAMP\<close>.
\<close>

definition registro :: "string \<Rightarrow> string \<Rightarrow> string \<Rightarrow> produto" where
  "registro n l ts =
     \<lparr>id' = Some ''7'', sku = Some [], nome = Some n, preco = Some ''R$ R$ 10,00'',
      imagem = Some [], link = Some l, metodo_extracao = Some ''.listagem-item'',
      categoria = Some ''Acessorios'', preco_texto = Some ''R$ 10,00'',
      preco_valor = Some 10, data_scraping = Some (DataStr ts),
      status = Some disponivel, fonte = Some ''https://loja/acessorios''\<rparr>"

definition instante_1 :: datetime where
  "instante_1 = \<lparr>year = 2025, month = 1, day = 27, hour = 10, minute = 5, second = 0,
                  microsecond = 0\<rparr>"

definition instante_2 :: datetime where
  "instante_2 = \<lparr>year = 2025, month = 1, day = 28, hour = 10, minute = 5, second = 0,
                  microsecond = 0\<rparr>"

definition banco_vazio :: conexao where
  "banco_vazio = \<lparr>aberta = True, confirmadas = [], pendentes = [], abortada = False\<rparr>"

(*DEFS-END*)

section \<open>Properties of the retry orchestrator\<close>

text \<open>Attempts \<open>t .. i - 1\<close> that all fail are each followed by the sleep \<open>2 ^ t\<close>.\<close>

lemma tentativas_falhas:
  "t \<le> i \<Longrightarrow> i \<le> m \<Longrightarrow> (\<forall>j. t \<le> j \<and> j < i \<longrightarrow> \<not> bem_sucedida (crawl j)) \<Longrightarrow>
   tentativas crawl m t d = tentativas crawl m i (d @ map (\<lambda>j. 2 ^ j) [t..<i])"
proof (induction "i - t" arbitrary: t d)
  case 0
  then show ?case by simp
next
  case (Suc k)
  then have lt: "t < i" and tm: "t < m" and nb: "\<not> bem_sucedida (crawl t)" by auto
  have step: "tentativas crawl m t d = tentativas crawl m (Suc t) (d @ [2 ^ t])"
    using tm nb by (subst tentativas.simps) (auto simp: bem_sucedida_def split: sum.splits)
  have "tentativas crawl m (Suc t) (d @ [2 ^ t]) =
        tentativas crawl m i ((d @ [2 ^ t]) @ map (\<lambda>j. 2 ^ j) [Suc t..<i])"
    using Suc by (intro Suc.hyps(1)) auto
  then show ?case using step lt by (simp add: upt_conv_Cons)
qed

lemma tentativas_fim_sucesso:
  "i \<le> m \<Longrightarrow> crawl i = Inr ps \<Longrightarrow> ps \<noteq> [] \<Longrightarrow> tentativas crawl m i d = (Inr ps, d)"
  by (subst tentativas.simps) simp

lemma tentativas_fim_falha:
  "\<not> bem_sucedida (crawl m) \<Longrightarrow>
   tentativas crawl m m d = ((case crawl m of Inl e \<Rightarrow> Inl e | Inr ps \<Rightarrow> Inr []), d)"
  by (subst tentativas.simps, subst (2) tentativas.simps, subst (3) tentativas.simps)
     (auto simp: bem_sucedida_def split: sum.splits)

lemma tentativas_vazio: "tentativas crawl 0 (Suc 0) d = (Inr [], d)"
  by (subst tentativas.simps) simp

lemma tentativas_esgotadas:
  assumes "1 \<le> m" and "\<forall>j. 1 \<le> j \<and> j \<le> m \<longrightarrow> \<not> bem_sucedida (crawl j)"
  shows "tentativas crawl m 1 [] =
    ((case crawl m of Inl e \<Rightarrow> Inl e | Inr ps \<Rightarrow> Inr []), map (\<lambda>j. 2 ^ j) [1..<m])"
proof -
  have "tentativas crawl m 1 [] = tentativas crawl m m ([] @ map (\<lambda>j. 2 ^ j) [1..<m])"
    using assms by (intro tentativas_falhas) auto
  then show ?thesis using assms by (simp add: tentativas_fim_falha)
qed

text \<open>
  Claim C3, as the spec words it: when every attempt is used up without a successful
  one, the last exception that any attempt raised is raised again. The code raises
  again only inside the handler of the final attempt. With two attempts, the first
  raising and the second returning no record, the run ends without a success, an
  attempt did raise, and the caller gets the empty list.
\<close>

theorem scrape_com_retry_excecao_anterior_perdida:
  "roteiro [Inl (PlaywrightError ''timeout''), Inr ([] :: string list)] 1
     = Inl (PlaywrightError ''timeout'')
   \<and> \<not> bem_sucedida (roteiro [Inl (PlaywrightError ''timeout''), Inr ([] :: string list)] 1)
   \<and> \<not> bem_sucedida (roteiro [Inl (PlaywrightError ''timeout''), Inr ([] :: string list)] 2)
   \<and> fst (scrape_com_retry
        (roteiro [Inl (PlaywrightError ''timeout''), Inr ([] :: string list)]) 2) = Inr []"
  by (simp add: scrape_com_retry_def roteiro_def bem_sucedida_def tentativas.simps)

text \<open>
  Claim C3, amended: when every one of the \<open>max_tentativas\<close> attempts fails (it raises or
  returns no record), the caller gets the exception of the final attempt if the final
  attempt raised, and the empty list if the final attempt returned no record, whatever
  the earlier attempts did. With no attempt at all (\<open>max_tentativas < 1\<close>) the result is
  the empty list.
\<close>

theorem scrape_com_retry_esgotado:
  "(\<forall>j. 1 \<le> j \<and> int j \<le> m \<longrightarrow> \<not> bem_sucedida (crawl j)) \<longrightarrow>
   fst (scrape_com_retry crawl m) =
     (if m < 1 then Inr [] else case crawl (nat m) of Inl e \<Rightarrow> Inl e | Inr ps \<Rightarrow> Inr [])"
proof (intro impI)
  assume h: "\<forall>j. 1 \<le> j \<and> int j \<le> m \<longrightarrow> \<not> bem_sucedida (crawl j)"
  show "fst (scrape_com_retry crawl m) =
     (if m < 1 then Inr [] else case crawl (nat m) of Inl e \<Rightarrow> Inl e | Inr ps \<Rightarrow> Inr [])"
  proof (cases "1 \<le> nat m")
    case True
    have all: "\<forall>j. 1 \<le> j \<and> j \<le> nat m \<longrightarrow> \<not> bem_sucedida (crawl j)"
      using h by (auto simp: le_nat_iff)
    have "\<not> m < 1" using True by linarith
    then show ?thesis
      using tentativas_esgotadas [OF True all] by (simp add: scrape_com_retry_def)
  next
    case False
    then have "nat m = 0" and "m < 1" by linarith+
    then show ?thesis by (simp add: scrape_com_retry_def tentativas_vazio)
  qed
qed

theorem scrape_com_retry_esgotado_witness:
  "fst (scrape_com_retry (roteiro [Inr [], Inl (PlaywrightError ''timeout''),
        Inl (ValueError ''dom'')]) 3) = (Inl (ValueError ''dom'') :: excecao + string list)
   \<and> fst (scrape_com_retry (roteiro [Inl (PlaywrightError ''timeout''), Inr [],
        Inr ([] :: string list)]) 3) = Inr []"
proof -
  let ?c = "roteiro [Inr [], Inl (PlaywrightError ''timeout''),
        Inl (ValueError ''dom'') :: excecao + string list]"
  let ?d = "roteiro [Inl (PlaywrightError ''timeout''), Inr [], Inr ([] :: string list)]"
  have a: "\<forall>j. 1 \<le> j \<and> int j \<le> 3 \<longrightarrow> \<not> bem_sucedida (?c j)"
    by (auto simp: roteiro_def bem_sucedida_def nth_Cons split: nat.splits)
  have b: "\<forall>j. 1 \<le> j \<and> int j \<le> 3 \<longrightarrow> \<not> bem_sucedida (?d j)"
    by (auto simp: roteiro_def bem_sucedida_def nth_Cons split: nat.splits)
  show ?thesis
    using scrape_com_retry_esgotado [of 3 ?c] scrape_com_retry_esgotado [of 3 ?d] a b
    by (simp add: roteiro_def)
qed

text \<open>
  Claim C4: the orchestrator returns the records of the first attempt \<open>i\<close> within
  \<open>1 .. max_tentativas\<close> that completes without exception and returns a record; every
  attempt before it (each raised or returned no record) was followed by a sleep of exactly
  \<open>2 ^ j\<close> units, in order, and nothing else was slept. When no attempt succeeds, the
  sleeps are \<open>2 ^ 1, ..., 2 ^ (max_tentativas - 1)\<close>: each failed attempt but the final one
  is followed by its backoff.
\<close>

theorem scrape_com_retry_primeira_bem_sucedida:
  "(1 \<le> i \<and> int i \<le> m \<and> crawl i = Inr ps \<and> ps \<noteq> [] \<and>
      (\<forall>j. 1 \<le> j \<and> j < i \<longrightarrow> \<not> bem_sucedida (crawl j))
     \<longrightarrow> scrape_com_retry crawl m = (Inr ps, map (\<lambda>j. 2 ^ j) [1..<i]))
   \<and> ((\<forall>j. 1 \<le> j \<and> int j \<le> m \<longrightarrow> \<not> bem_sucedida (crawl j))
     \<longrightarrow> snd (scrape_com_retry crawl m) = map (\<lambda>j. 2 ^ j) [1..<nat m])"
proof (intro conjI impI)
  assume h: "1 \<le> i \<and> int i \<le> m \<and> crawl i = Inr ps \<and> ps \<noteq> [] \<and>
      (\<forall>j. 1 \<le> j \<and> j < i \<longrightarrow> \<not> bem_sucedida (crawl j))"
  then have im: "i \<le> nat m" by linarith
  have "tentativas crawl (nat m) 1 [] =
        tentativas crawl (nat m) i ([] @ map (\<lambda>j. 2 ^ j) [1..<i])"
    using h im by (intro tentativas_falhas) auto
  also have "\<dots> = (Inr ps, map (\<lambda>j. 2 ^ j) [1..<i])"
    using h im by (simp add: tentativas_fim_sucesso)
  finally show "scrape_com_retry crawl m = (Inr ps, map (\<lambda>j. 2 ^ j) [1..<i])"
    by (simp add: scrape_com_retry_def)
next
  assume h: "\<forall>j. 1 \<le> j \<and> int j \<le> m \<longrightarrow> \<not> bem_sucedida (crawl j)"
  show "snd (scrape_com_retry crawl m) = map (\<lambda>j. 2 ^ j) [1..<nat m]"
  proof (cases "1 \<le> nat m")
    case True
    have "\<forall>j. 1 \<le> j \<and> j \<le> nat m \<longrightarrow> \<not> bem_sucedida (crawl j)"
      using h by (auto simp: le_nat_iff)
    from tentativas_esgotadas [OF True this] show ?thesis by (simp add: scrape_com_retry_def)
  next
    case False
    then have "nat m = 0" by simp
    then show ?thesis by (simp add: scrape_com_retry_def tentativas_vazio)
  qed
qed

text \<open>
  The spec's example: attempts 1 and 2 raise, attempt 3 returns \<open>[recordA]\<close>, three
  attempts allowed. The result is \<open>[recordA]\<close> after sleeping 2 then 4 units. Second,
  a run of three failed attempts sleeps 2 then 4 units as well.
\<close>

theorem scrape_com_retry_primeira_bem_sucedida_witness:
  "scrape_com_retry (roteiro [Inl (PlaywrightError ''timeout''), Inl (PlaywrightError ''timeout''),
        Inr [''recordA'']]) 3 = (Inr [''recordA''], [2, 4])
   \<and> snd (scrape_com_retry (roteiro [Inl (PlaywrightError ''timeout''), Inr [],
        Inr ([] :: string list)]) 3) = [2, 4]"
proof -
  let ?c = "roteiro [Inl (PlaywrightError ''timeout''), Inl (PlaywrightError ''timeout''),
        Inr [''recordA'']]"
  let ?d = "roteiro [Inl (PlaywrightError ''timeout''), Inr [], Inr ([] :: string list)]"
  have a: "\<forall>j. 1 \<le> j \<and> j < 3 \<longrightarrow> \<not> bem_sucedida (?c j)"
    by (auto simp: roteiro_def bem_sucedida_def nth_Cons split: nat.splits)
  have b: "\<forall>j. 1 \<le> j \<and> int j \<le> 3 \<longrightarrow> \<not> bem_sucedida (?d j)"
    by (auto simp: roteiro_def bem_sucedida_def nth_Cons split: nat.splits)
  have u: "map (\<lambda>j. 2 ^ j) [Suc 0..<3] = [2, 4 :: int]" by (simp add: eval_nat_numeral)
  show ?thesis
    using scrape_com_retry_primeira_bem_sucedida [of 3 3 ?c "[''recordA'']"]
      scrape_com_retry_primeira_bem_sucedida [of 0 3 ?d "[]"] a b
    by (simp add: roteiro_def u)
qed

section \<open>Properties of the price parser\<close>

text \<open>The definitions a concrete call of \<open>limpar_preco\<close> unfolds.\<close>

lemmas preco_eval = limpar_preco_def limpar_def strip_def casa_duplicata_def casa_valor_def
      is_space_def is_digit_def is_numch_def literal_valor_def replace_char_def py_float_def
      digits_val_def digit_val_def Let_def

lemma casa_valor_Some:
  assumes "casa_valor s = Some m"
  shows "\<exists>run d1 d2. m = run @ [CHR '','', d1, d2] \<and> list_all is_numch run
           \<and> is_digit d1 \<and> is_digit d2"
proof -
  have "list_all is_numch (takeWhile is_numch s)"
    by (auto simp: list_all_iff dest: set_takeWhileD)
  with assms show ?thesis
    by (auto simp: casa_valor_def Let_def split: if_splits list.splits)
qed

lemma search_valor_Some:
  "search_valor s = Some m \<Longrightarrow>
   \<exists>run d1 d2. m = run @ [CHR '','', d1, d2] \<and> list_all is_numch run
           \<and> is_digit d1 \<and> is_digit d2"
proof (induction s)
  case Nil
  then show ?case by simp
next
  case (Cons c cs)
  show ?case
  proof (cases "casa_valor (c # cs)")
    case None
    with Cons show ?thesis by simp
  next
    case (Some m')
    with Cons.prems have "m' = m" by simp
    with Some show ?thesis by (auto dest: casa_valor_Some)
  qed
qed

lemma nao_digito_ponto: "\<not> is_digit CHR ''.''" and nao_digito_virgula: "\<not> is_digit CHR '',''"
  by (simp_all add: is_digit_def)

lemma replace_ponto: "list_all is_numch run \<Longrightarrow> replace_char CHR ''.'' [] run = filter is_digit run"
  by (induction run) (auto simp: replace_char_def is_numch_def nao_digito_ponto)

lemma replace_virgula_digitos:
  "list_all is_digit ds \<Longrightarrow> replace_char CHR '','' ''.'' ds = ds"
  by (induction ds) (auto simp: replace_char_def nao_digito_virgula)

lemma replace_char_append: "replace_char a b (xs @ ys) = replace_char a b xs @ replace_char a b ys"
  by (simp add: replace_char_def)

lemma literal_valor_forma:
  assumes "list_all is_numch run" "is_digit d1" "is_digit d2"
  shows "literal_valor (run @ [CHR '','', d1, d2]) = filter is_digit run @ [CHR ''.'', d1, d2]"
proof -
  have d: "d1 \<noteq> CHR ''.''" "d2 \<noteq> CHR ''.''" "d1 \<noteq> CHR '',''" "d2 \<noteq> CHR '',''"
    using assms nao_digito_ponto nao_digito_virgula by auto
  have "replace_char CHR ''.'' [] (run @ [CHR '','', d1, d2])
        = filter is_digit run @ [CHR '','', d1, d2]"
    using d by (simp add: replace_char_append replace_ponto [OF assms(1)]) (simp add: replace_char_def)
  moreover have "list_all is_digit (filter is_digit run)" by (simp add: list_all_iff)
  ultimately show ?thesis
    using d by (simp add: literal_valor_def replace_char_append replace_virgula_digitos)
       (simp add: replace_char_def)
qed

lemma py_float_decimal:
  assumes "list_all is_digit ds" "list_all is_digit fp" "fp \<noteq> []"
  shows "py_float (ds @ CHR ''.'' # fp)
         = Inr (of_nat (digits_val ds) + of_nat (digits_val fp) / 10 ^ length fp)"
proof -
  have t: "takeWhile is_digit (ds @ CHR ''.'' # fp) = ds"
    using assms(1) by (simp add: takeWhile_append2 list_all_iff nao_digito_ponto)
  have d: "dropWhile is_digit (ds @ CHR ''.'' # fp) = CHR ''.'' # fp"
    using assms(1) by (simp add: dropWhile_append2 list_all_iff nao_digito_ponto)
  show ?thesis using assms by (simp add: py_float_def t d)
qed


text \<open>
  Claim C7, as the spec words it: on the sentinel \<^verbatim>\<open>Consultar\<close> (and on the empty string) the
  parser returns the text \<^verbatim>\<open>Consult price\<close>. The code returns the literal \<^verbatim>\<open>Consultar\<close>, the
  same string it tests its input against.
\<close>

theorem limpar_preco_sentinela_texto:
  "limpar_preco ''Consultar'' \<noteq> Inr \<lparr>texto = ''Consult price'', valor = None\<rparr>"
  by (simp add: limpar_preco_def)

text \<open>
  Claim C7, amended: \<open>limpar_preco\<close> sends \<^verbatim>\<open>R$ R$ 1.510,40\<close> to the text \<^verbatim>\<open>R$ 1.510,40\<close> with
  the value 1510.40, and both the sentinel \<^verbatim>\<open>Consultar\<close> and the empty string to the text
  \<^verbatim>\<open>Consultar\<close> with no value.
\<close>

theorem limpar_preco_exemplos:
  "limpar_preco ''R$ R$ 1.510,40'' = Inr \<lparr>texto = ''R$ 1.510,40'', valor = Some (151040 / 100)\<rparr>
   \<and> limpar_preco ''Consultar'' = Inr \<lparr>texto = ''Consultar'', valor = None\<rparr>
   \<and> limpar_preco '''' = Inr \<lparr>texto = ''Consultar'', valor = None\<rparr>"
  by (simp add: preco_eval)



text \<open>
  Claim C9 says that an input starting with two or more repetitions of \<^verbatim>\<open>R$\<close> comes out
  with the currency symbol exactly once. The substitution of line 96 is a single pass
  that folds the repetitions in pairs: on three repetitions the first two become one and
  the third stays, so the text keeps two symbols.
\<close>

theorem limpar_preco_prefixo_triplo:
  "limpar_preco ''R$ R$ R$ 5,00'' = Inr \<lparr>texto = ''R$ R$ 5,00'', valor = Some 5\<rparr>"
  by (simp add: preco_eval)

section \<open>Properties of page extraction\<close>

text \<open>The price parser returns on every string.\<close>

lemma limpar_preco_Inr: "\<exists>i. limpar_preco s = Inr i"
proof (cases "search_valor (limpar s)")
  case None
  then show ?thesis by (simp add: limpar_preco_def)
next
  case (Some m)
  from search_valor_Some [OF Some] obtain run d1 d2 where
    m: "m = run @ [CHR '','', d1, d2]" and r: "list_all is_numch run"
    and d: "is_digit d1" "is_digit d2" by blast
  have "list_all is_digit (filter is_digit run)" by (simp add: list_all_iff)
  then have "\<exists>v. py_float (filter is_digit run @ CHR ''.'' # [d1, d2]) = Inr v"
    using d by (simp add: py_float_decimal)
  then have "\<exists>v. py_float (literal_valor m) = Inr v"
    by (simp add: m literal_valor_forma [OF r d])
  then show ?thesis using Some by (auto simp: limpar_preco_def)
qed

lemma processar_elemento_acc:
  "processar_elemento e items = items @ processar_elemento e []"
  by (simp add: processar_elemento_def)

lemma avaliar_script_acc:
  "avaliar_script es items = items @ concat (map (\<lambda>e. processar_elemento e []) es)"
proof (induction es arbitrary: items)
  case Nil
  then show ?case by simp
next
  case (Cons e es)
  have "avaliar_script (e # es) items = avaliar_script es (processar_elemento e items)" by simp
  also have "\<dots> = processar_elemento e items @ concat (map (\<lambda>e. processar_elemento e []) es)"
    by (rule Cons.IH)
  also have "\<dots> = items @ concat (map (\<lambda>e. processar_elemento e []) (e # es))"
    by (subst processar_elemento_acc) simp
  finally show ?case .
qed

lemma avaliar_script_nome:
  "map nome (avaliar_script es []) = map (\<lambda>e. Some (nome_de e))
     (filter (\<lambda>e. \<not> lanca e \<and> nome_de e \<noteq> [] \<and> link_de e \<noteq> []) es)"
  by (subst avaliar_script_acc) (induction es, auto simp: processar_elemento_def)

lemma avaliar_script_link:
  "map link (avaliar_script es []) = map (\<lambda>e. Some (link_de e))
     (filter (\<lambda>e. \<not> lanca e \<and> nome_de e \<noteq> [] \<and> link_de e \<noteq> []) es)"
  by (subst avaliar_script_acc) (induction es, auto simp: processar_elemento_def)

lemma avaliar_script_preco: "list_all (\<lambda>p. preco p \<noteq> None) (avaliar_script es [])"
  by (subst avaliar_script_acc) (induction es, auto simp: processar_elemento_def)

lemma enriquecer_Inr:
  "list_all (\<lambda>p. preco p \<noteq> None) ps \<Longrightarrow>
   \<exists>ps'. enriquecer c t ps = Inr ps' \<and> map nome ps' = map nome ps \<and> map link ps' = map link ps"
proof (induction ps)
  case Nil
  then show ?case by simp
next
  case (Cons p ps)
  then obtain s where s: "preco p = Some s" by auto
  obtain i where i: "limpar_preco s = Inr i" using limpar_preco_Inr by blast
  from Cons obtain ps' where "enriquecer c t ps = Inr ps'" "map nome ps' = map nome ps"
    "map link ps' = map link ps" by auto
  with s i show ?case by simp
qed

text \<open>
  Claim C5: for every DOM snapshot and category name, extraction returns, and its output
  is, in document order, exactly one record for each candidate whose processing does not
  throw and whose name and link are both non-empty. Every candidate that lacks either
  field, and every candidate whose processing throws, contributes nothing and leaves the
  records of its siblings in place. Every emitted record has a non-empty name and a
  non-empty link.
\<close>

theorem extrair_produtos_pagina_nome_e_link:
  "\<exists>ps. extrair_produtos_pagina elementos categoria_nome timestamp = Inr ps
     \<and> map nome ps = map (\<lambda>e. Some (nome_de e))
          (filter (\<lambda>e. \<not> lanca e \<and> nome_de e \<noteq> [] \<and> link_de e \<noteq> []) elementos)
     \<and> map link ps = map (\<lambda>e. Some (link_de e))
          (filter (\<lambda>e. \<not> lanca e \<and> nome_de e \<noteq> [] \<and> link_de e \<noteq> []) elementos)
     \<and> list_all (\<lambda>p. nome p \<noteq> None \<and> nome p \<noteq> Some [] \<and> link p \<noteq> None \<and> link p \<noteq> Some []) ps"
proof -
  let ?ok = "\<lambda>e. \<not> lanca e \<and> nome_de e \<noteq> [] \<and> link_de e \<noteq> []"
  from enriquecer_Inr [OF avaliar_script_preco] obtain ps where
    ps: "enriquecer categoria_nome timestamp (avaliar_script elementos []) = Inr ps"
    and n: "map nome ps = map nome (avaliar_script elementos [])"
    and l: "map link ps = map link (avaliar_script elementos [])" by blast
  have n': "map nome ps = map (\<lambda>e. Some (nome_de e)) (filter ?ok elementos)"
    using n by (simp add: avaliar_script_nome)
  have l': "map link ps = map (\<lambda>e. Some (link_de e)) (filter ?ok elementos)"
    using l by (simp add: avaliar_script_link)
  have "\<forall>x \<in> set (map nome ps). x \<noteq> None \<and> x \<noteq> Some []"
    unfolding n' by auto
  moreover have "\<forall>x \<in> set (map link ps). x \<noteq> None \<and> x \<noteq> Some []"
    unfolding l' by auto
  ultimately have "list_all (\<lambda>p. nome p \<noteq> None \<and> nome p \<noteq> Some [] \<and> link p \<noteq> None \<and> link p \<noteq> Some []) ps"
    by (simp add: list_all_iff)
  with ps n' l' show ?thesis by (auto simp: extrair_produtos_pagina_def)
qed

text \<open>
  Five candidates: the second has no name, the third throws, the fourth has no link. The
  first and the fifth are emitted, in that order.
\<close>

theorem extrair_produtos_pagina_nome_e_link_witness:
  "\<exists>ps. extrair_produtos_pagina
      [candidato (Some '' Grelha '') (Some ''https://loja/grelha'') False,
       candidato None (Some ''https://loja/sem-nome'') False,
       candidato (Some ''Espeto'') (Some ''https://loja/espeto'') True,
       candidato (Some ''Faca'') None False,
       candidato (Some ''Pegador'') (Some ''https://loja/pegador'') False] ''Acess'' ''2025-01-27T10:00:00''
     = Inr ps
     \<and> map nome ps = [Some ''Grelha'', Some ''Pegador'']
     \<and> map link ps = [Some ''https://loja/grelha'', Some ''https://loja/pegador'']"
proof -
  let ?es = "[candidato (Some '' Grelha '') (Some ''https://loja/grelha'') False,
       candidato None (Some ''https://loja/sem-nome'') False,
       candidato (Some ''Espeto'') (Some ''https://loja/espeto'') True,
       candidato (Some ''Faca'') None False,
       candidato (Some ''Pegador'') (Some ''https://loja/pegador'') False]"
  let ?ok = "\<lambda>e. \<not> lanca e \<and> nome_de e \<noteq> [] \<and> link_de e \<noteq> []"
  from extrair_produtos_pagina_nome_e_link [of ?es "''Acess''" "''2025-01-27T10:00:00''"] obtain ps where
    h: "extrair_produtos_pagina ?es ''Acess'' ''2025-01-27T10:00:00'' = Inr ps
     \<and> map nome ps = map (\<lambda>e. Some (nome_de e)) (filter ?ok ?es)
     \<and> map link ps = map (\<lambda>e. Some (link_de e)) (filter ?ok ?es)
     \<and> list_all (\<lambda>p. nome p \<noteq> None \<and> nome p \<noteq> Some [] \<and> link p \<noteq> None \<and> link p \<noteq> Some []) ps" ..
  note a = h [THEN conjunct1]
  note n = h [THEN conjunct2, THEN conjunct1]
  note l = h [THEN conjunct2, THEN conjunct2, THEN conjunct1]
  have n': "map nome ps = [Some ''Grelha'', Some ''Pegador'']"
    unfolding n by (simp add: candidato_def nome_de_def link_de_def js_trim_def js_space_def)
  have l': "map link ps = [Some ''https://loja/grelha'', Some ''https://loja/pegador'']"
    unfolding l by (simp add: candidato_def nome_de_def link_de_def js_trim_def js_space_def)
  show ?thesis by (intro exI [of _ ps] conjI a n' l')
qed

section \<open>Properties of the category walker\<close>

text \<open>
  While no page after the first comes back empty, the loop goes from page \<open>t\<close> to page
  \<open>i\<close>, adding what each page in between contributes.
\<close>

lemma percorrer_avanca:
  "t \<le> i \<Longrightarrow> i \<le> Suc tot \<Longrightarrow>
   (\<forall>k. t \<le> k \<and> k < i \<longrightarrow> \<not> (1 < k \<and> produtos_pagina s c k = Inr [])) \<Longrightarrow>
   percorrer s c tot t todos vis =
   percorrer s c tot i (todos @ concat (map (registros_pagina s c) [t..<i])) (vis @ [t..<i])"
proof (induction "i - t" arbitrary: t todos vis)
  case 0
  then show ?case by simp
next
  case (Suc d)
  then have lt: "t < i" and tt: "\<not> tot < t"
    and ns: "\<not> (1 < t \<and> produtos_pagina s c t = Inr [])" by auto
  have step: "percorrer s c tot t todos vis =
      percorrer s c tot (Suc t) (todos @ registros_pagina s c t) (vis @ [t])"
    using tt ns by (subst percorrer.simps)
      (auto simp: registros_pagina_def split: sum.splits)
  have "percorrer s c tot (Suc t) (todos @ registros_pagina s c t) (vis @ [t]) =
      percorrer s c tot i ((todos @ registros_pagina s c t)
        @ concat (map (registros_pagina s c) [Suc t..<i])) ((vis @ [t]) @ [Suc t..<i])"
    using Suc by (intro Suc.hyps(1)) auto
  then show ?case using step lt by (simp add: upt_conv_Cons)
qed

lemma percorrer_para:
  "1 < n \<Longrightarrow> n \<le> tot \<Longrightarrow> produtos_pagina s c n = Inr [] \<Longrightarrow>
   percorrer s c tot n todos vis = (todos, vis @ [n])"
  by (subst percorrer.simps) simp

lemma percorrer_visitadas_mono:
  "set vis \<subseteq> set (snd (percorrer s c tot n todos vis))"
proof (induction s c tot n todos vis rule: percorrer.induct)
  case (1 s c tot n todos vis)
  show ?case
  proof (cases "tot < n")
    case True
    then show ?thesis by (subst percorrer.simps) simp
  next
    case False
    show ?thesis
    proof (cases "produtos_pagina s c n")
      case (Inl e)
      with False "1.IH"(1) [OF False Inl] show ?thesis
        by (subst percorrer.simps) auto
    next
      case (Inr ps)
      show ?thesis
      proof (cases "ps \<noteq> []")
        case True
        with False Inr "1.IH"(2) [OF False Inr True] show ?thesis
          by (subst percorrer.simps) auto
      next
        case e: False
        show ?thesis
        proof (cases "n > 1")
          case True
          with False Inr e show ?thesis by (subst percorrer.simps) auto
        next
          case n1: False
          with False Inr e "1.IH"(3) [OF False Inr e n1] show ?thesis
            by (subst percorrer.simps) auto
        qed
      qed
    qed
  qed
qed

lemma percorrer_visita:
  "n \<le> tot \<Longrightarrow> n \<in> set (snd (percorrer s c tot n todos vis))"
proof -
  assume "n \<le> tot"
  then have nt: "\<not> tot < n" by simp
  have m: "\<And>todos'. n \<in> set (snd (percorrer s c tot (Suc n) todos' (vis @ [n])))"
    using percorrer_visitadas_mono [of "vis @ [n]" s c tot "Suc n"] by auto
  show ?thesis using nt m
    by (subst percorrer.simps) (auto split: sum.splits)
qed

text \<open>
  Claim C2: when the entry succeeds (status 200) and \<open>n > 1\<close> is the first page after
  page 1, within the detected and clamped page count, whose extraction returns no record,
  the walker works on the pages \<open>1, ..., n\<close> and on no other, and the category's list is
  the concatenation of the records of the pages \<open>1, ..., n - 1\<close> (a page that raised
  contributes none). Page 1 returning no record does not stop the walk: when the clamped
  page count is 2 or more, page 2 is worked on.
\<close>

theorem scrape_categoria_para_na_pagina_vazia:
  "(entrada s = Inr 200 \<and> 1 < n
      \<and> int n \<le> min (detectar_total_paginas (paginacao s)) max_paginas
      \<and> produtos_pagina s c n = Inr []
      \<and> (\<forall>k. 1 < k \<and> k < n \<longrightarrow> produtos_pagina s c k \<noteq> Inr [])
     \<longrightarrow> scrape_categoria_com_paginacao s c max_paginas
           = (concat (map (registros_pagina s c) [1..<n]), [1..<Suc n]))
   \<and> (entrada s = Inr 200 \<and> produtos_pagina s c 1 = Inr []
      \<and> 2 \<le> min (detectar_total_paginas (paginacao s)) max_paginas
     \<longrightarrow> 2 \<in> set (snd (scrape_categoria_com_paginacao s c max_paginas)))"
proof (intro conjI impI)
  let ?total = "nat (min (detectar_total_paginas (paginacao s)) max_paginas)"
  assume h: "entrada s = Inr 200 \<and> 1 < n
      \<and> int n \<le> min (detectar_total_paginas (paginacao s)) max_paginas
      \<and> produtos_pagina s c n = Inr []
      \<and> (\<forall>k. 1 < k \<and> k < n \<longrightarrow> produtos_pagina s c k \<noteq> Inr [])"
  then have nt: "n \<le> ?total" by linarith
  have "percorrer s c ?total 1 [] [] =
        percorrer s c ?total n ([] @ concat (map (registros_pagina s c) [1..<n])) ([] @ [1..<n])"
    using h nt by (intro percorrer_avanca) auto
  also have "\<dots> = (concat (map (registros_pagina s c) [1..<n]), [1..<n] @ [n])"
    using h nt by (simp add: percorrer_para)
  finally show "scrape_categoria_com_paginacao s c max_paginas
           = (concat (map (registros_pagina s c) [1..<n]), [1..<Suc n])"
    using h by (simp add: scrape_categoria_com_paginacao_def)
next
  define tot where "tot = nat (min (detectar_total_paginas (paginacao s)) max_paginas)"
  assume h: "entrada s = Inr 200 \<and> produtos_pagina s c 1 = Inr []
      \<and> 2 \<le> min (detectar_total_paginas (paginacao s)) max_paginas"
  then have t2: "Suc (Suc 0) \<le> tot" unfolding tot_def by linarith
  from h have p1: "produtos_pagina s c (Suc 0) = Inr []" by simp
  have one: "percorrer s c tot (Suc 0) [] [] = percorrer s c tot (Suc (Suc 0)) [] [Suc 0]"
    using p1 t2 by (subst percorrer.simps) simp
  have "Suc (Suc 0) \<in> set (snd (percorrer s c tot (Suc (Suc 0)) [] [Suc 0]))"
    using t2 by (rule percorrer_visita)
  with one have "Suc (Suc 0) \<in> set (snd (percorrer s c tot (Suc 0) [] []))" by simp
  then have "2 \<in> set (snd (percorrer s c tot 1 [] []))"
    by (simp add: numeral_2_eq_2)
  with h show "2 \<in> set (snd (scrape_categoria_com_paginacao s c max_paginas))"
    by (simp add: scrape_categoria_com_paginacao_def tot_def)
qed

text \<open>The definitions a concrete extraction and a concrete walk unfold.\<close>

lemmas extracao_eval = extrair_produtos_pagina_def processar_elemento_def nome_de_def link_de_def
  preco_de_def imagem_de_def prod_id_de_def sku_de_def js_trim_def js_space_def casa_prod_id_def
  candidato_def

lemmas site_eval = produtos_pagina_def site_quatro_paginas_def site_pagina_1_vazia_def
  categoria_exemplo_def roteiro_def relogio_fixo_def detectar_total_paginas_def

text \<open>
  The first concrete walk stops at page 3 and returns the two products of page 1, tagged
  with the base URL; page 4 is never visited. The second goes on to page 2 after the
  empty page 1.
\<close>

theorem scrape_categoria_para_na_pagina_vazia_witness:
  "map nome (fst (scrape_categoria_com_paginacao site_quatro_paginas categoria_exemplo 20))
     = [Some ''Grelha'', Some ''Pegador'']
   \<and> map fonte (fst (scrape_categoria_com_paginacao site_quatro_paginas categoria_exemplo 20))
     = [Some ''https://loja/acessorios'', Some ''https://loja/acessorios'']
   \<and> snd (scrape_categoria_com_paginacao site_quatro_paginas categoria_exemplo 20) = [1, 2, 3]
   \<and> 2 \<in> set (snd (scrape_categoria_com_paginacao site_pagina_1_vazia categoria_exemplo 20))"
proof -
  let ?s = site_quatro_paginas and ?c = categoria_exemplo
  have p3: "produtos_pagina ?s ?c 3 = Inr []"
    by (simp add: site_eval extracao_eval)
  have p2: "\<forall>k. 1 < k \<and> k < 3 \<longrightarrow> produtos_pagina ?s ?c k \<noteq> Inr []"
  proof (intro allI impI)
    fix k :: nat assume "1 < k \<and> k < 3"
    then have "k = 2" by simp
    then show "produtos_pagina ?s ?c k \<noteq> Inr []" by (simp add: site_eval)
  qed
  have e: "entrada ?s = Inr 200" "int 3 \<le> min (detectar_total_paginas (paginacao ?s)) 20"
    by (simp_all add: site_eval)
  have r: "scrape_categoria_com_paginacao ?s ?c 20
           = (concat (map (registros_pagina ?s ?c) [1..<3]), [1..<Suc 3])"
    using scrape_categoria_para_na_pagina_vazia [of ?s 3 20 ?c] e p3 p2 by simp
  have u: "[1..<3] = [1, 2]" "[1..<Suc 3] = [1, 2, 3]" by (simp_all add: upt_conv_Cons)
  have r1: "map nome (registros_pagina ?s ?c 1) = [Some ''Grelha'', Some ''Pegador'']"
    "map fonte (registros_pagina ?s ?c 1) = [Some ''https://loja/acessorios'', Some ''https://loja/acessorios'']"
    by (simp_all add: registros_pagina_def url_atual_def site_eval extracao_eval preco_eval)
  have r2: "registros_pagina ?s ?c 2 = []"
    by (simp add: registros_pagina_def site_eval)
  have e2: "entrada site_pagina_1_vazia = Inr 200"
    "produtos_pagina site_pagina_1_vazia ?c 1 = Inr []"
    "2 \<le> min (detectar_total_paginas (paginacao site_pagina_1_vazia)) 20"
    by (simp_all add: site_eval extracao_eval)
  have b: "2 \<in> set (snd (scrape_categoria_com_paginacao site_pagina_1_vazia ?c 20))"
    using scrape_categoria_para_na_pagina_vazia [of site_pagina_1_vazia 0 20 ?c] e2 by simp
  show ?thesis using r u r1 r2 b by simp
qed

section \<open>Properties of the persister\<close>

text \<open>Each record of the loop adds one to exactly one of the three counters.\<close>

lemma salvar_todos_conta:
  "inseridos (fst (salvar_todos f agora ps st con)) + atualizados (fst (salvar_todos f agora ps st con))
     + erros (fst (salvar_todos f agora ps st con))
   = inseridos st + atualizados st + erros st + length ps"
proof (induction ps arbitrary: st con)
  case Nil
  then show ?case by simp
next
  case (Cons p ps)
  obtain r con' where r: "salvar_produto f agora p con = (r, con')" by (cases "salvar_produto f agora p con")
  show ?case
  proof (cases r)
    case (Inl e)
    with r show ?thesis by (simp add: Cons.IH)
  next
    case (Inr inserted)
    with r show ?thesis by (cases inserted) (simp_all add: Cons.IH)
  qed
qed

text \<open>
  Claim C10: on every return path of \<open>salvar_postgres\<close> (empty input, no connection
  available, the loop over the records, and the outer handler) the three counts add up to
  the number of input records.
\<close>

theorem salvar_postgres_contagens:
  "inseridos (fst (salvar_postgres f agora produtos conn nova))
     + atualizados (fst (salvar_postgres f agora produtos conn nova))
     + erros (fst (salvar_postgres f agora produtos conn nova)) = length produtos"
proof (cases "produtos = []")
  case True
  then show ?thesis by (simp add: salvar_postgres_def)
next
  case ne: False
  show ?thesis
  proof (cases "case conn of None \<Rightarrow> nova | Some con \<Rightarrow> Some con")
    case None
    with ne show ?thesis by (simp add: salvar_postgres_def)
  next
    case (Some con)
    let ?c1 = "criar_tabela_produtos con"
    show ?thesis
    proof (cases "aberta ?c1")
      case False
      with ne Some show ?thesis by (simp add: salvar_postgres_def Let_def)
    next
      case True
      obtain st con' where l: "salvar_todos f agora produtos
           \<lparr>inseridos = 0, atualizados = 0, erros = 0\<rparr> ?c1 = (st, con')"
        by (cases "salvar_todos f agora produtos \<lparr>inseridos = 0, atualizados = 0, erros = 0\<rparr> ?c1")
      have c: "inseridos st + atualizados st + erros st = length produtos"
        using salvar_todos_conta [of f agora produtos "\<lparr>inseridos = 0, atualizados = 0, erros = 0\<rparr>" ?c1]
        by (simp add: l)
      show ?thesis
        using ne Some True l c
        by (cases "commit con'") (simp_all add: salvar_postgres_def Let_def)
    qed
  qed
qed

text \<open>The definitions a concrete batch unfolds, and the two time stamps of the examples.\<close>

lemma arredondar_2_10: "arredondar_2 10 = 10"
  by code_simp

lemmas postgres_eval = salvar_postgres_def criar_tabela_produtos_def salvar_produto_def
  converter_data_def cursor_execute_def tem_nul_def coagir_def entao_def varchar_def
  decimal_10_2_def upsert_def commit_def close_def parametros_de_def get_def disponivel_def
  linha_nova_def do_update_def registro_def banco_vazio_def replace_char_def Let_def

lemma iso_ok: "fromisoformat_exemplo ''2025-01-27T10:00:00''
   = Inr \<lparr>year = 2025, month = 1, day = 27, hour = 10, minute = 0, second = 0, microsecond = 0\<rparr>"
  by (simp add: fromisoformat_exemplo_def is_digit_def digits_val_def digit_val_def)

lemma iso_ruim: "fromisoformat_exemplo ''ontem'' = Inl (ValueError ''Invalid isoformat string'')"
  by (simp add: fromisoformat_exemplo_def)

text \<open>
  The four return paths on concrete batches: no record; two records and no connection;
  three records on an empty table, the second with an unreadable time stamp and the third
  with the link of the first; two records on a closed connection.
\<close>

theorem salvar_postgres_contagens_witness:
  "fst (salvar_postgres fromisoformat_exemplo instante_1 [] None None)
     = \<lparr>inseridos = 0, atualizados = 0, erros = 0\<rparr>
   \<and> fst (salvar_postgres fromisoformat_exemplo instante_1
        [registro ''Grelha'' ''https://loja/grelha'' ''2025-01-27T10:00:00'',
         registro ''Pegador'' ''https://loja/pegador'' ''2025-01-27T10:00:00''] None None)
     = \<lparr>inseridos = 0, atualizados = 0, erros = 2\<rparr>
   \<and> fst (salvar_postgres fromisoformat_exemplo instante_1
        [registro ''Grelha'' ''https://loja/grelha'' ''2025-01-27T10:00:00'',
         registro ''Pegador'' ''https://loja/pegador'' ''ontem'',
         registro ''Grelha 2'' ''https://loja/grelha'' ''2025-01-27T10:00:00''] (Some banco_vazio) None)
     = \<lparr>inseridos = 1, atualizados = 1, erros = 1\<rparr>
   \<and> fst (salvar_postgres fromisoformat_exemplo instante_1
        [registro ''Grelha'' ''https://loja/grelha'' ''2025-01-27T10:00:00'',
         registro ''Pegador'' ''https://loja/pegador'' ''2025-01-27T10:00:00'']
        (Some (close banco_vazio)) None)
     = \<lparr>inseridos = 0, atualizados = 0, erros = 2\<rparr>"
  using salvar_postgres_contagens [of fromisoformat_exemplo instante_1 "[]" None None]
  by (simp add: postgres_eval iso_ok iso_ruim arredondar_2_10)

end
